theory Spec2Isabelle
  imports Complex_Main "HOL-Library.Sublist"
begin

section \<open>Session configuration (class DocusignConfig)\<close>

text \<open>
  A JavaScript value that is thrown or that rejects a promise. \<open>AxiosError\<close> is an
  instance of axios' error class: its message and, when the server answered, the status
  and the optional \<open>data.message\<close> of the response. \<open>Error\<close> is a plain instance
  of \<open>Error\<close> with its message: every \<open>new Error(...)\<close> of the service is one.
  \<open>ConfigurationError\<close> is an instance of the class of that name in errors.ts, which
  extends \<open>Error\<close>; no line of the service constructs one. \<open>NonError\<close> is a rejection
  value that is not an \<open>Error\<close> instance at all.
\<close>

record error_response =
  status_code :: nat
  data_message :: "string option"

datatype js_error =
    AxiosError string "error_response option"
  | Error string
  | ConfigurationError string
  | NonError

text \<open>
  The constructor's argument (interface DocusignConfigOptions): every field is optional.
  Numbers are modelled as integers; a field that is absent is \<open>None\<close>.
\<close>

record DocusignConfigOptions =
  token_opt :: "string option"
  accountId_opt :: "string option"
  userId_opt :: "string option"
  cookie_opt :: "string option"
  environment_opt :: "string option"
  outputFormat_opt :: "string option"
  outputPath_opt :: "string option"
  maxConcurrent_opt :: "int option"
  retryAttempts_opt :: "int option"
  retryDelay_opt :: "int option"
  rateLimit_opt :: "int option"

text \<open>The four variables of \<open>process.env\<close> that the constructor reads.\<close>

record process_env =
  DOCUSIGN_TOKEN :: "string option"
  DOCUSIGN_ACCOUNT_ID :: "string option"
  DOCUSIGN_USER_ID :: "string option"
  DOCUSIGN_COOKIE :: "string option"

record DocusignConfig =
  token :: string
  accountId :: string
  userId :: string
  cookie :: string
  environment :: string
  outputFormat :: string
  outputPath :: string
  maxConcurrent :: int
  retryAttempts :: int
  retryDelay :: int
  rateLimit :: int

text \<open>
  JavaScript's \<open>a || b\<close>: the left operand when it is truthy. An absent field and the
  empty string are falsy; so is the number zero.
\<close>

definition str_or :: "string option \<Rightarrow> string option \<Rightarrow> string option" where
  "str_or a b = (case a of None \<Rightarrow> b | Some s \<Rightarrow> if s = [] then b else Some s)"

definition str_or_default :: "string option \<Rightarrow> string \<Rightarrow> string" where
  "str_or_default a d = (case a of None \<Rightarrow> d | Some s \<Rightarrow> if s = [] then d else s)"

definition num_or_default :: "int option \<Rightarrow> int \<Rightarrow> int" where
  "num_or_default a d = (case a of None \<Rightarrow> d | Some n \<Rightarrow> if n = 0 then d else n)"

text \<open>
  \<open>String.prototype.replace\<close> with a string pattern: only the first occurrence of the
  pattern, scanning from the left, is replaced.
\<close>

fun replace_first :: "string \<Rightarrow> string \<Rightarrow> string \<Rightarrow> string" where
  "replace_first pat rep [] = (if pat = [] then rep else [])"
| "replace_first pat rep (c # cs) =
     (if take (length pat) (c # cs) = pat then rep @ drop (length pat) (c # cs)
      else c # replace_first pat rep cs)"

text \<open>The field assignments of the constructor, lines 50 to 60.\<close>

definition assign_fields :: "process_env \<Rightarrow> DocusignConfigOptions \<Rightarrow> DocusignConfig" where
  "assign_fields env config =
     \<lparr> token = replace_first ''Bearer '' ''''
                 (str_or_default (str_or (token_opt config) (DOCUSIGN_TOKEN env)) ''''),
       accountId = str_or_default (str_or (accountId_opt config) (DOCUSIGN_ACCOUNT_ID env)) '''',
       userId = str_or_default (str_or (userId_opt config) (DOCUSIGN_USER_ID env)) '''',
       cookie = str_or_default (str_or (cookie_opt config) (DOCUSIGN_COOKIE env)) '''',
       environment = str_or_default (environment_opt config) ''production'',
       outputFormat = str_or_default (outputFormat_opt config) ''combined'',
       outputPath = str_or_default (outputPath_opt config) ''./docusign_downloads'',
       maxConcurrent = min (num_or_default (maxConcurrent_opt config) 3) 5,
       retryAttempts = num_or_default (retryAttempts_opt config) 3,
       retryDelay = num_or_default (retryDelay_opt config) 1000,
       rateLimit = num_or_default (rateLimit_opt config) 5 \<rparr>"

text \<open>\<open>validate()\<close>: the first failing check throws; \<open>None\<close> is the normal return.\<close>

definition validate :: "DocusignConfig \<Rightarrow> js_error option" where
  \<open>validate c =
     (if token c = [] then Some (Error ''DocuSign token is required'')
      else if accountId c = [] then Some (Error ''DocuSign account ID is required'')
      else if cookie c = [] then Some (Error ''DocuSign cookie is required'')
      else if environment c \<notin> set [''production'', ''demo'']
        then Some (Error ''Environment must be either "production" or "demo"'')
      else if maxConcurrent c < 1 then Some (Error ''maxConcurrent must be at least 1'')
      else if retryAttempts c < 0 then Some (Error ''retryAttempts must be non-negative'')
      else if retryDelay c < 0 then Some (Error ''retryDelay must be non-negative'')
      else if rateLimit c < 1 then Some (Error ''rateLimit must be at least 1'')
      else None)\<close>

text \<open>\<open>new DocusignConfig(config)\<close>: assign the fields, then validate.\<close>

definition new_DocusignConfig ::
  "process_env \<Rightarrow> DocusignConfigOptions \<Rightarrow> js_error + DocusignConfig" where
  "new_DocusignConfig env config =
     (let c = assign_fields env config
      in case validate c of Some e \<Rightarrow> Inl e | None \<Rightarrow> Inr c)"

definition getBaseUrl :: "DocusignConfig \<Rightarrow> string" where
  "getBaseUrl c =
     (if environment c = ''production''
      then ''https://apps.docusign.com/api/esign/na3/restapi/v2.1''
      else ''https://demo.docusign.net/restapi/v2.1'')"

text \<open>\<open>_buildHeaders()\<close>: the three request headers built from the configuration.\<close>

record request_headers =
  accept :: string
  authorization :: string
  Cookie :: string

definition buildHeaders :: "DocusignConfig \<Rightarrow> request_headers" where
  "buildHeaders c =
     \<lparr> accept = ''application/json'',
       authorization = ''Bearer '' @ token c,
       Cookie = cookie c \<rparr>"

text \<open>A string contains a pattern when the pattern is a prefix of one of its suffixes.\<close>

fun contains :: "string \<Rightarrow> string \<Rightarrow> bool" where
  "contains pat [] = (pat = [])"
| "contains pat (c # cs) = (take (length pat) (c # cs) = pat \<or> contains pat cs)"


section \<open>The service (class DocusignService)\<close>

record Envelope =
  envelopeId :: string
  status :: string
  emailSubject :: "string option"
  sentDateTime :: "string option"
  completedDateTime :: "string option"

text \<open>The notifications of the event emitter, one constructor per event name.\<close>

datatype event =
    SearchStarted string string
  | EnvelopesFound nat nat
  | DownloadStarted string
  | DownloadComplete string real
  | DownloadError string string
  | Retrying nat int string
  | TokenExpired
  | ErrorEvent js_error
  | AllDownloadsComplete nat
  | Cancelled

text \<open>
  The two requests the service sends: the listing of envelopes, with the converted dates
  and \<open>params.start_position\<close>, and the combined document of one envelope.
\<close>

datatype request = ListEnvelopes string string nat | CombinedDocument string

text \<open>
  What the service does to the outside, in the order it does it: a notification, a
  \<open>setTimeout\<close> that is awaited (in \<open>_rateLimit\<close> or before a retry), a request handed
  to axios.
\<close>

datatype timer = Pacing | Backoff

datatype effect = Emit event | Timeout timer real | Request request

text \<open>
  A resolved response: \<open>data.envelopes\<close> (absent on a download) and the outcome of
  piping \<open>data\<close> into the file, \<open>None\<close> for the writer's \<open>finish\<close> and the error
  for its \<open>error\<close> event.
\<close>

record response =
  data_envelopes :: "Envelope list option"
  data_pipe :: "js_error option"

text \<open>
  Everything outside the service. \<open>clock w k\<close> is what the k-th call of \<open>Date.now()\<close>
  returns, \<open>respond w k rq\<close> is how the k-th request handed to axios settles, and
  \<open>cancelDuring w k\<close> says that the user calls \<open>cancel()\<close> while that request is in
  flight. \<open>toISOString\<close> is \<open>None\<close> for a date that JavaScript cannot parse,
  \<open>ensureDir\<close> is the error of \<open>fs.ensureDir\<close> if there is one, and
  \<open>cancelDuringEnsureDir\<close> says that \<open>cancel()\<close> is called while the directory is
  being created.
\<close>

record world =
  clock :: "nat \<Rightarrow> int"
  respond :: "nat \<Rightarrow> request \<Rightarrow> js_error + response"
  cancelDuring :: "nat \<Rightarrow> bool"
  toISOString :: "string \<Rightarrow> string option"
  ensureDir :: "string \<Rightarrow> js_error option"
  cancelDuringEnsureDir :: bool

text \<open>
  The mutable fields of the service, followed by four fields of bookkeeping that the
  source does not have: how many requests were handed to axios, how often the clock was
  read, the value of \<open>lastRequestTime\<close> at each dispatch, and the effects so far.
  \<open>this.config\<close> is never assigned after the constructor; the methods below take it as
  the argument \<open>cfg\<close>.
\<close>

record DocusignService =
  envelopes :: "Envelope list"
  isCancelled :: bool
  lastRequestTime :: int
  requests :: nat
  clockReads :: nat
  dispatchTimes :: "int list"
  trace :: "effect list"

definition new_DocusignService ::
  "process_env \<Rightarrow> DocusignConfigOptions \<Rightarrow> js_error + DocusignConfig \<times> DocusignService" where
  "new_DocusignService env config =
     (case new_DocusignConfig env config of
        Inl e \<Rightarrow> Inl e
      | Inr cfg \<Rightarrow>
          Inr (cfg, \<lparr> envelopes = [], isCancelled = False, lastRequestTime = 0,
                      requests = 0, clockReads = 0, dispatchTimes = [], trace = [] \<rparr>))"

definition emit :: "event \<Rightarrow> DocusignService \<Rightarrow> DocusignService" where
  "emit ev st = st\<lparr>trace := trace st @ [Emit ev]\<rparr>"

definition setTimeout :: "timer \<Rightarrow> real \<Rightarrow> DocusignService \<Rightarrow> DocusignService" where
  "setTimeout tm d st = st\<lparr>trace := trace st @ [Timeout tm d]\<rparr>"

definition Date_now :: "world \<Rightarrow> DocusignService \<Rightarrow> int \<times> DocusignService" where
  "Date_now w st = (clock w (clockReads st), st\<lparr>clockReads := Suc (clockReads st)\<rparr>)"

definition cancel :: "DocusignService \<Rightarrow> DocusignService" where
  "cancel st = emit Cancelled (st\<lparr>isCancelled := True\<rparr>)"

subsection \<open>Pacing\<close>

text \<open>
  \<open>_rateLimit()\<close> in two halves. \<open>rateLimit_begin\<close> is what runs before the method
  suspends: it reads the clock and decides whether to wait, and for how long.
  \<open>rateLimit_end\<close> is the rest: the wait, if any, and the assignment of a fresh clock
  reading to \<open>lastRequestTime\<close>. A single caller runs one after the other.
\<close>

definition rateLimit_begin ::
  "DocusignConfig \<Rightarrow> world \<Rightarrow> DocusignService \<Rightarrow> real option \<times> DocusignService" where
  "rateLimit_begin cfg w st =
     (let (now, st1) = Date_now w st;
          timeSinceLastRequest = now - lastRequestTime st1;
          minRequestInterval = 1000 / real_of_int (rateLimit cfg)
      in if real_of_int timeSinceLastRequest < minRequestInterval
         then (Some (minRequestInterval - real_of_int timeSinceLastRequest), st1)
         else (None, st1))"

definition rateLimit_end :: "world \<Rightarrow> real option \<Rightarrow> DocusignService \<Rightarrow> DocusignService" where
  "rateLimit_end w wait st =
     (let st1 = (case wait of None \<Rightarrow> st | Some d \<Rightarrow> setTimeout Pacing d st);
          (t, st2) = Date_now w st1
      in st2\<lparr>lastRequestTime := t\<rparr>)"

definition do_rateLimit :: "DocusignConfig \<Rightarrow> world \<Rightarrow> DocusignService \<Rightarrow> DocusignService" where
  "do_rateLimit cfg w st = (let (wait, st1) = rateLimit_begin cfg w st in rateLimit_end w wait st1)"

subsection \<open>The retrying executor\<close>

text \<open>Decimal digits of a number, as a template literal prints it.\<close>

fun show_nat :: "nat \<Rightarrow> string" where
  "show_nat n =
     (if n < 10 then [''0123456789'' ! n]
      else show_nat (n div 10) @ [''0123456789'' ! (n mod 10)])"

text \<open>
  The message of the error thrown at line 143:
  \<open>error.response?.data?.message || error.message\<close>, then the status, which prints as
  \<open>undefined\<close> when there was no response.
\<close>

definition api_error_message :: "string \<Rightarrow> error_response option \<Rightarrow> string" where
  "api_error_message msg resp =
     ''DocuSign API Error: ''
       @ str_or_default (case resp of None \<Rightarrow> None | Some r \<Rightarrow> data_message r) msg
       @ '' (Status: ''
       @ (case resp of None \<Rightarrow> ''undefined'' | Some r \<Rightarrow> show_nat (status_code r))
       @ '')''"

definition token_expired_message :: string where
  "token_expired_message = ''Token expired. Please refresh your authentication token.''"

text \<open>
  A request function is a computation on the service's state: it settles with an error
  or a value. \<open>axios_get\<close> is the one the service passes: it hands one request to axios.
  It records the request and the pacing timestamp under which it leaves; the user may
  call \<open>cancel()\<close> before it settles.
\<close>

type_synonym 'a requestFn = "DocusignService \<Rightarrow> (js_error + 'a) \<times> DocusignService"

definition axios_get :: "world \<Rightarrow> request \<Rightarrow> response requestFn" where
  "axios_get w rq st =
     (let k = requests st;
          st1 = st\<lparr>requests := Suc k,
                   dispatchTimes := dispatchTimes st @ [lastRequestTime st],
                   trace := trace st @ [Request rq]\<rparr>
      in (respond w k rq, if cancelDuring w k then cancel st1 else st1))"

text \<open>
  \<open>_retryableRequest(requestFn, attempt)\<close>. \<open>retry_from\<close> is the method from the call
  of \<open>requestFn\<close> on, that is after \<open>await this._rateLimit()\<close> has returned; the
  recursive call of the source runs the pacing of the next attempt first.
\<close>

function retry_from ::
  "DocusignConfig \<Rightarrow> world \<Rightarrow> 'a requestFn \<Rightarrow> nat \<Rightarrow> DocusignService
     \<Rightarrow> (js_error + 'a) \<times> DocusignService" where
  "retry_from cfg w requestFn attempt st =
     (case requestFn st of
        (Inr v, st1) \<Rightarrow> (Inr v, st1)
      | (Inl err, st1) \<Rightarrow>
          (case err of
             AxiosError msg resp \<Rightarrow>
               if map_option status_code resp = Some 401
               then (Inl (Error token_expired_message), emit TokenExpired st1)
               else if (map_option status_code resp = Some 429
                        \<or> 500 \<le> (case resp of None \<Rightarrow> 0 | Some r \<Rightarrow> status_code r))
                       \<and> int attempt \<le> retryAttempts cfg
               then (let delay = retryDelay cfg * 2 ^ (attempt - 1);
                         st2 = emit (Retrying attempt delay msg) st1;
                         st3 = setTimeout Backoff (real_of_int delay) st2
                     in retry_from cfg w requestFn (Suc attempt) (do_rateLimit cfg w st3))
               else (Inl (Error (api_error_message msg resp)), st1)
           | _ \<Rightarrow> (Inl err, st1)))"
  by pat_completeness auto
termination
  by (relation "measure (\<lambda>(cfg, w, requestFn, attempt, st). nat (retryAttempts cfg + 1) - attempt)")
     auto

definition retryableRequest ::
  "DocusignConfig \<Rightarrow> world \<Rightarrow> 'a requestFn \<Rightarrow> nat \<Rightarrow> DocusignService
     \<Rightarrow> (js_error + 'a) \<times> DocusignService" where
  "retryableRequest cfg w requestFn attempt st =
     retry_from cfg w requestFn attempt (do_rateLimit cfg w st)"

declare retry_from.simps [simp del]

subsection \<open>Discovery\<close>

definition page_count :: nat where
  "page_count = 100"

text \<open>
  The \<open>while (hasMore && !this.isCancelled)\<close> loop of \<open>getEnvelopesWebApi\<close>, with
  \<open>params.start_position\<close> and \<open>hasMore\<close> as arguments. A server that always sends
  full pages keeps the loop running for ever, so the loop carries fuel: one unit per
  iteration, and \<open>None\<close> when the fuel is used up before the loop has ended.
\<close>

fun page_loop ::
  "nat \<Rightarrow> DocusignConfig \<Rightarrow> world \<Rightarrow> string \<Rightarrow> string \<Rightarrow> nat \<Rightarrow> bool \<Rightarrow> DocusignService
     \<Rightarrow> ((js_error + unit) \<times> DocusignService) option" where
  "page_loop fuel cfg w from_date to_date start_position hasMore st =
     (if hasMore \<and> \<not> isCancelled st then
        (case fuel of
           0 \<Rightarrow> None
         | Suc fuel' \<Rightarrow>
            (case retryableRequest cfg w
                    (axios_get w (ListEnvelopes from_date to_date start_position)) 1 st of
               (Inl err, st1) \<Rightarrow> Some (Inl err, st1)
             | (Inr resp, st1) \<Rightarrow>
                 (case data_envelopes resp of
                    Some found \<Rightarrow>
                      (let st2 = st1\<lparr>envelopes := envelopes st1 @ found\<rparr>;
                           st3 = emit (EnvelopesFound (length found) (length (envelopes st2))) st2
                       in page_loop fuel' cfg w from_date to_date (length (envelopes st3))
                            (length found = page_count) st3)
                  | None \<Rightarrow>
                      page_loop fuel' cfg w from_date to_date start_position
                        (0 = page_count) st1)))
      else Some (Inr (), st))"

declare page_loop.simps [simp del]

text \<open>
  \<open>getEnvelopesWebApi(fromDate, toDate)\<close>. \<open>new Date(x).toISOString()\<close> throws a
  \<open>RangeError\<close> on a date that cannot be parsed; it is thrown inside the \<open>try\<close>, so
  it is reported through the \<open>error\<close> event like a failure of the executor.
\<close>

definition getEnvelopesWebApi ::
  "nat \<Rightarrow> DocusignConfig \<Rightarrow> world \<Rightarrow> string \<Rightarrow> string \<Rightarrow> DocusignService
     \<Rightarrow> ((js_error + Envelope list) \<times> DocusignService) option" where
  "getEnvelopesWebApi fuel cfg w fromDate toDate st =
     (if isCancelled st then Some (Inr [], st)
      else
        (case (toISOString w fromDate, toISOString w toDate) of
           (Some fromDateISO, Some toDateISO) \<Rightarrow>
             (case page_loop fuel cfg w fromDateISO toDateISO 0 True
                     (emit (SearchStarted fromDate toDate) st) of
                None \<Rightarrow> None
              | Some (Inl err, st1) \<Rightarrow> Some (Inl err, emit (ErrorEvent err) st1)
              | Some (Inr u, st1) \<Rightarrow> Some (Inr (envelopes st1), st1))
         | _ \<Rightarrow>
             Some (Inl (Error ''Invalid time value''),
                   emit (ErrorEvent (Error ''Invalid time value'')) st)))"

subsection \<open>Downloads\<close>

text \<open>\<open>Array.prototype.slice(i, j)\<close> for \<open>0 \<le> i \<le> j\<close>.\<close>

definition slice :: "'a list \<Rightarrow> nat \<Rightarrow> nat \<Rightarrow> 'a list" where
  "slice xs i j = take (j - i) (drop i xs)"

text \<open>
  The loop that builds \<open>chunks\<close>, with the index \<open>i\<close> as argument and the step
  \<open>maxConcurrent\<close> as \<open>m\<close>. With a step below one the source's loop does not end;
  \<open>downloadDocuments\<close> below does not enter it then.
\<close>

function chunk_loop :: "nat \<Rightarrow> 'a list \<Rightarrow> nat \<Rightarrow> 'a list list" where
  "chunk_loop m xs i =
     (if i < length xs \<and> 0 < m then slice xs i (i + m) # chunk_loop m xs (i + m) else [])"
  by pat_completeness auto
termination
  by (relation "measure (\<lambda>(m, xs, i). length xs - i)") auto

declare chunk_loop.simps [simp del]

text \<open>\<open>error instanceof Error ? error.message : 'Unknown error'\<close>\<close>

definition error_text :: "js_error \<Rightarrow> string" where
  "error_text err =
     (case err of
        AxiosError msg resp \<Rightarrow> msg
      | Error msg \<Rightarrow> msg
      | ConfigurationError msg \<Rightarrow> msg
      | NonError \<Rightarrow> ''Unknown error'')"

text \<open>
  One chunk is \<open>await Promise.all(chunk.map(async envelope => ...))\<close>. \<open>map\<close> calls the
  function for each envelope in turn, and each call runs until it first suspends:
  \<open>start_download\<close> is that part, the \<open>downloadStarted\<close> event and the first half of
  the pacing (with its second half too when there is nothing to wait for). It returns the
  pacing wait the download is suspended on, if any.
\<close>

definition start_download ::
  "DocusignConfig \<Rightarrow> world \<Rightarrow> Envelope \<Rightarrow> DocusignService \<Rightarrow> real option \<times> DocusignService" where
  "start_download cfg w envelope st =
     (let st1 = emit (DownloadStarted (envelopeId envelope)) st;
          (wait, st2) = rateLimit_begin cfg w st1
      in case wait of
           None \<Rightarrow> (None, rateLimit_end w None st2)
         | Some d \<Rightarrow> (Some d, st2))"

text \<open>
  \<open>finish_download\<close> is the rest of one download: the end of the pacing wait, the
  request with its retries, the write to the file, and the \<open>downloadComplete\<close> or
  \<open>downloadError\<close> event. It carries \<open>downloadedCount\<close> along.
\<close>

definition finish_download ::
  "DocusignConfig \<Rightarrow> world \<Rightarrow> Envelope \<Rightarrow> real option \<Rightarrow> nat \<times> DocusignService
     \<Rightarrow> nat \<times> DocusignService" where
  "finish_download cfg w envelope wait acc =
     (let (downloadedCount, st) = acc;
          st1 = (case wait of None \<Rightarrow> st | Some d \<Rightarrow> rateLimit_end w (Some d) st);
          (r, st2) = retry_from cfg w (axios_get w (CombinedDocument (envelopeId envelope))) 1 st1
      in case r of
           Inl err \<Rightarrow>
             (downloadedCount, emit (DownloadError (envelopeId envelope) (error_text err)) st2)
         | Inr resp \<Rightarrow>
             (case data_pipe resp of
                Some err \<Rightarrow>
                  (downloadedCount,
                   emit (DownloadError (envelopeId envelope) (error_text err)) st2)
              | None \<Rightarrow>
                  (Suc downloadedCount,
                   emit (DownloadComplete (envelopeId envelope)
                           (real (Suc downloadedCount) / real (length (envelopes st2)) * 100))
                     st2)))"

text \<open>
  The downloads of a chunk are all started, in array order, before any of them resumes.
  The resumed downloads are then run one after the other in array order; the source lets
  them interleave at their suspension points, which this model does not follow.
\<close>

fun start_chunk ::
  "DocusignConfig \<Rightarrow> world \<Rightarrow> Envelope list \<Rightarrow> DocusignService
     \<Rightarrow> real option list \<times> DocusignService" where
  "start_chunk cfg w [] st = ([], st)"
| "start_chunk cfg w (envelope # rest) st =
     (let (wait, st1) = start_download cfg w envelope st;
          (waits, st2) = start_chunk cfg w rest st1
      in (wait # waits, st2))"

fun finish_chunk ::
  "DocusignConfig \<Rightarrow> world \<Rightarrow> (Envelope \<times> real option) list \<Rightarrow> nat \<times> DocusignService
     \<Rightarrow> nat \<times> DocusignService" where
  "finish_chunk cfg w [] acc = acc"
| "finish_chunk cfg w ((envelope, wait) # rest) acc =
     finish_chunk cfg w rest (finish_download cfg w envelope wait acc)"

definition run_chunk ::
  "DocusignConfig \<Rightarrow> world \<Rightarrow> Envelope list \<Rightarrow> nat \<times> DocusignService \<Rightarrow> nat \<times> DocusignService" where
  "run_chunk cfg w chunk acc =
     (let (downloadedCount, st) = acc;
          (waits, st1) = start_chunk cfg w chunk st
      in finish_chunk cfg w (zip chunk waits) (downloadedCount, st1))"

text \<open>\<open>for (const chunk of chunks) { if (this.isCancelled) break; ... }\<close>\<close>

fun run_chunks ::
  "DocusignConfig \<Rightarrow> world \<Rightarrow> Envelope list list \<Rightarrow> nat \<times> DocusignService
     \<Rightarrow> nat \<times> DocusignService" where
  "run_chunks cfg w [] acc = acc"
| "run_chunks cfg w (chunk # rest) acc =
     (if isCancelled (snd acc) then acc else run_chunks cfg w rest (run_chunk cfg w chunk acc))"

text \<open>
  \<open>downloadDocuments()\<close>. \<open>None\<close> is the run that never returns, which is the loop
  building the chunks when \<open>maxConcurrent\<close> is below one.
\<close>

definition downloadDocuments ::
  "DocusignConfig \<Rightarrow> world \<Rightarrow> DocusignService \<Rightarrow> ((js_error + unit) \<times> DocusignService) option" where
  "downloadDocuments cfg w st =
     (if envelopes st = [] \<or> isCancelled st then Some (Inr (), st)
      else
        (case ensureDir w (outputPath cfg) of
           Some err \<Rightarrow> Some (Inl err, st)
         | None \<Rightarrow>
             (let st1 = (if cancelDuringEnsureDir w then cancel st else st)
              in if maxConcurrent cfg < 1 then None
                 else
                   (let chunks = chunk_loop (nat (maxConcurrent cfg)) (envelopes st1) 0;
                        (downloadedCount, st2) = run_chunks cfg w chunks (0, st1)
                    in Some (Inr (), emit (AllDownloadsComplete downloadedCount) st2)))))"


section \<open>What a run shows, and the scenarios of the theorems\<close>

subsection \<open>Views of the effects\<close>

text \<open>
  The effects of the retry logic: requests, waits before a retry, and the \<open>retrying\<close>
  and \<open>tokenExpired\<close> events. Pacing waits and the \<open>cancelled\<close> event of a user who
  cancels while a request is in flight are left out.
\<close>

fun retry_effect :: "effect \<Rightarrow> bool" where
  "retry_effect (Request rq) = True"
| "retry_effect (Timeout Backoff d) = True"
| "retry_effect (Timeout Pacing d) = False"
| "retry_effect (Emit (Retrying n d msg)) = True"
| "retry_effect (Emit TokenExpired) = True"
| "retry_effect (Emit ev) = False"

definition retry_view :: "effect list \<Rightarrow> effect list" where
  "retry_view tr = filter retry_effect tr"

text \<open>
  A request settles with a failure that the executor retries: an \<open>AxiosError\<close> whose
  response has status 429 or at least 500. \<open>failure_message\<close> is its \<open>message\<close>.
\<close>

definition retryable_failure :: "js_error + 'a \<Rightarrow> bool" where
  "retryable_failure x =
     (case x of
        Inl (AxiosError msg (Some r)) \<Rightarrow> status_code r = 429 \<or> 500 \<le> status_code r
      | _ \<Rightarrow> False)"

definition failure_message :: "js_error + 'a \<Rightarrow> string" where
  "failure_message x = (case x of Inl (AxiosError msg resp) \<Rightarrow> msg | _ \<Rightarrow> [])"

text \<open>
  The three effects of the n-th retry of a call whose first request was number
  \<open>first\<close>: the request that failed, the notification, the wait.
\<close>

definition retry_steps :: "DocusignConfig \<Rightarrow> world \<Rightarrow> request \<Rightarrow> nat \<Rightarrow> nat \<Rightarrow> effect list" where
  "retry_steps cfg w rq first n =
     [Request rq,
      Emit (Retrying n (retryDelay cfg * 2 ^ (n - 1)) (failure_message (respond w (first + (n - 1)) rq))),
      Timeout Backoff (real_of_int (retryDelay cfg * 2 ^ (n - 1)))]"


text \<open>The requests handed to axios, in order.\<close>

fun sent_request :: "effect \<Rightarrow> request option" where
  "sent_request (Request rq) = Some rq"
| "sent_request e = None"

definition sent :: "effect list \<Rightarrow> request list" where
  "sent tr = List.map_filter sent_request tr"

text \<open>
  \<open>page_offset start accumulated pages i\<close> is \<open>params.start_position\<close> of the
  request for page \<open>i\<close>: the initial value for the first page, and afterwards the
  number of envelopes accumulated before the run plus those of the pages so far.
  \<open>page_served w k rq page\<close> says that request number \<open>k\<close> resolves with \<open>page\<close>
  as \<open>data.envelopes\<close>.
\<close>

definition page_offset :: "nat \<Rightarrow> nat \<Rightarrow> Envelope list list \<Rightarrow> nat \<Rightarrow> nat" where
  "page_offset start accumulated pages i =
     (if i = 0 then start else accumulated + length (concat (take i pages)))"

definition page_served :: "world \<Rightarrow> nat \<Rightarrow> request \<Rightarrow> Envelope list \<Rightarrow> bool" where
  "page_served w k rq page =
     (case respond w k rq of Inr resp \<Rightarrow> data_envelopes resp = Some page | Inl err \<Rightarrow> False)"





text \<open>
  The events of the downloads: \<open>Started\<close> for \<open>downloadStarted\<close>, \<open>Finished\<close> for
  either terminal event, \<open>downloadComplete\<close> or \<open>downloadError\<close>. \<open>outcomes\<close> keeps
  the terminal events only and tells the two apart: \<open>True\<close> is \<open>downloadComplete\<close>.
  \<open>chunk_view\<close> is what a chunk shows when all its downloads start and then all end.
\<close>

datatype download_mark = Started string | Finished string

fun download_mark_of :: "effect \<Rightarrow> download_mark option" where
  "download_mark_of (Emit (DownloadStarted i)) = Some (Started i)"
| "download_mark_of (Emit (DownloadComplete i p)) = Some (Finished i)"
| "download_mark_of (Emit (DownloadError i msg)) = Some (Finished i)"
| "download_mark_of e = None"

definition download_view :: "effect list \<Rightarrow> download_mark list" where
  "download_view tr = List.map_filter download_mark_of tr"

fun outcome_of :: "effect \<Rightarrow> (bool \<times> string) option" where
  "outcome_of (Emit (DownloadComplete i p)) = Some (True, i)"
| "outcome_of (Emit (DownloadError i msg)) = Some (False, i)"
| "outcome_of e = None"

definition outcomes :: "effect list \<Rightarrow> (bool \<times> string) list" where
  "outcomes tr = List.map_filter outcome_of tr"



text \<open>
  The four string checks of \<open>validate()\<close> pass on the assigned fields; and a numeric
  option is either absent or satisfies a bound.
\<close>

definition strings_valid :: "DocusignConfig \<Rightarrow> bool" where
  "strings_valid c \<longleftrightarrow>
     token c \<noteq> [] \<and> accountId c \<noteq> [] \<and> cookie c \<noteq> []
     \<and> environment c \<in> {''production'', ''demo''}"

definition absent_or :: "('a \<Rightarrow> bool) \<Rightarrow> 'a option \<Rightarrow> bool" where
  "absent_or P x = (case x of None \<Rightarrow> True | Some n \<Rightarrow> P n)"

subsection \<open>Example inputs\<close>

definition example_env :: process_env where
  "example_env = \<lparr> DOCUSIGN_TOKEN = None, DOCUSIGN_ACCOUNT_ID = None,
                    DOCUSIGN_USER_ID = None, DOCUSIGN_COOKIE = None \<rparr>"

definition example_options :: DocusignConfigOptions where
  "example_options =
     \<lparr> token_opt = Some ''test-token'', accountId_opt = Some ''test-account'',
       userId_opt = Some ''test-user'', cookie_opt = Some ''test-cookie'',
       environment_opt = None, outputFormat_opt = None, outputPath_opt = None,
       maxConcurrent_opt = None, retryAttempts_opt = None, retryDelay_opt = None,
       rateLimit_opt = None \<rparr>"

definition example_envelope :: "string \<Rightarrow> Envelope" where
  "example_envelope i =
     \<lparr> envelopeId = i, status = ''completed'', emailSubject = None,
       sentDateTime = None, completedDateTime = None \<rparr>"

definition fresh_service :: DocusignService where
  "fresh_service =
     \<lparr> envelopes = [], isCancelled = False, lastRequestTime = 0,
       requests = 0, clockReads = 0, dispatchTimes = [], trace = [] \<rparr>"

definition example_config :: DocusignConfig where
  "example_config =
     \<lparr> token = ''test-token'', accountId = ''test-account'', userId = ''test-user'',
       cookie = ''test-cookie'', environment = ''production'', outputFormat = ''combined'',
       outputPath = ''./docusign_downloads'', maxConcurrent = 3, retryAttempts = 3,
       retryDelay = 1000, rateLimit = 5 \<rparr>"

text \<open>A server that sends one full page and then a page of one envelope.\<close>

definition two_page_world :: world where
  "two_page_world =
     \<lparr> clock = (\<lambda>k. 1000 * int k),
       respond = (\<lambda>k rq. Inr \<lparr> data_envelopes =
                    Some (if k = 0 then replicate 100 (example_envelope ''a'')
                          else [example_envelope ''b'']),
                  data_pipe = None \<rparr>),
       cancelDuring = (\<lambda>k. False),
       toISOString = Some,
       ensureDir = (\<lambda>p. None),
       cancelDuringEnsureDir = False \<rparr>"

definition failing_world :: "nat \<Rightarrow> world" where
  "failing_world code =
     \<lparr> clock = (\<lambda>k. 1000 * int k),
       respond = (\<lambda>k rq. Inl (AxiosError ''Request failed''
                                (Some \<lparr> status_code = code, data_message = None \<rparr>))),
       cancelDuring = (\<lambda>k. False),
       toISOString = Some,
       ensureDir = (\<lambda>p. None),
       cancelDuringEnsureDir = False \<rparr>"


text \<open>A session whose result set is the given list, as after a discovery.\<close>

definition loaded_service :: "Envelope list \<Rightarrow> DocusignService" where
  "loaded_service found = fresh_service\<lparr>envelopes := found\<rparr>"

text \<open>
  A server that sends every document. The clock stands at 10000 for the first four
  readings and at 10500 afterwards.
\<close>

definition racing_world :: world where
  "racing_world =
     \<lparr> clock = (\<lambda>k. if k < 4 then 10000 else 10500),
       respond = (\<lambda>k rq. Inr \<lparr> data_envelopes = None, data_pipe = None \<rparr>),
       cancelDuring = (\<lambda>k. False),
       toISOString = Some,
       ensureDir = (\<lambda>p. None),
       cancelDuringEnsureDir = False \<rparr>"

definition pacing_config :: DocusignConfig where
  "pacing_config = example_config\<lparr>rateLimit := 2\<rparr>"





section \<open>Basic facts about the primitives\<close>

lemma emit_simps [simp]:
  "trace (emit ev st) = trace st @ [Emit ev]"
  "envelopes (emit ev st) = envelopes st"
  "isCancelled (emit ev st) = isCancelled st"
  "lastRequestTime (emit ev st) = lastRequestTime st"
  "requests (emit ev st) = requests st"
  "clockReads (emit ev st) = clockReads st"
  "dispatchTimes (emit ev st) = dispatchTimes st"
  by (simp_all add: emit_def)

lemma setTimeout_simps [simp]:
  "trace (setTimeout tm d st) = trace st @ [Timeout tm d]"
  "envelopes (setTimeout tm d st) = envelopes st"
  "isCancelled (setTimeout tm d st) = isCancelled st"
  "lastRequestTime (setTimeout tm d st) = lastRequestTime st"
  "requests (setTimeout tm d st) = requests st"
  "clockReads (setTimeout tm d st) = clockReads st"
  "dispatchTimes (setTimeout tm d st) = dispatchTimes st"
  by (simp_all add: setTimeout_def)

lemma cancel_simps [simp]:
  "trace (cancel st) = trace st @ [Emit Cancelled]"
  "envelopes (cancel st) = envelopes st"
  "isCancelled (cancel st) = True"
  "lastRequestTime (cancel st) = lastRequestTime st"
  "requests (cancel st) = requests st"
  "clockReads (cancel st) = clockReads st"
  "dispatchTimes (cancel st) = dispatchTimes st"
  by (simp_all add: cancel_def)

lemma rateLimit_begin_simps [simp]:
  "trace (snd (rateLimit_begin cfg w st)) = trace st"
  "envelopes (snd (rateLimit_begin cfg w st)) = envelopes st"
  "isCancelled (snd (rateLimit_begin cfg w st)) = isCancelled st"
  "lastRequestTime (snd (rateLimit_begin cfg w st)) = lastRequestTime st"
  "requests (snd (rateLimit_begin cfg w st)) = requests st"
  "clockReads (snd (rateLimit_begin cfg w st)) = Suc (clockReads st)"
  "dispatchTimes (snd (rateLimit_begin cfg w st)) = dispatchTimes st"
  by (simp_all add: rateLimit_begin_def Date_now_def Let_def)

lemma rateLimit_end_simps [simp]:
  "trace (rateLimit_end w wait st) = trace st @ (case wait of None \<Rightarrow> [] | Some d \<Rightarrow> [Timeout Pacing d])"
  "envelopes (rateLimit_end w wait st) = envelopes st"
  "isCancelled (rateLimit_end w wait st) = isCancelled st"
  "requests (rateLimit_end w wait st) = requests st"
  "clockReads (rateLimit_end w wait st) = Suc (clockReads st)"
  "dispatchTimes (rateLimit_end w wait st) = dispatchTimes st"
  by (simp_all add: rateLimit_end_def Date_now_def Let_def split: option.splits)

lemma do_rateLimit_simps [simp]:
  "envelopes (do_rateLimit cfg w st) = envelopes st"
  "isCancelled (do_rateLimit cfg w st) = isCancelled st"
  "requests (do_rateLimit cfg w st) = requests st"
  "clockReads (do_rateLimit cfg w st) = Suc (Suc (clockReads st))"
  "dispatchTimes (do_rateLimit cfg w st) = dispatchTimes st"
  by (simp_all add: do_rateLimit_def split_def Let_def)

lemma retry_view_simps [simp]:
  "retry_view [] = []"
  "retry_view (e # es) = (if retry_effect e then e # retry_view es else retry_view es)"
  by (simp_all add: retry_view_def)

lemma retry_view_append [simp]: "retry_view (xs @ ys) = retry_view xs @ retry_view ys"
  by (simp add: retry_view_def)

lemma retry_view_do_rateLimit [simp]:
  "retry_view (trace (do_rateLimit cfg w st)) = retry_view (trace st)"
  by (simp add: do_rateLimit_def split_def Let_def retry_view_def split: option.splits)

lemma axios_get_simps [simp]:
  "fst (axios_get w rq st) = respond w (requests st) rq"
  "trace (snd (axios_get w rq st))
     = trace st @ Request rq # (if cancelDuring w (requests st) then [Emit Cancelled] else [])"
  "envelopes (snd (axios_get w rq st)) = envelopes st"
  "isCancelled (snd (axios_get w rq st)) = (isCancelled st \<or> cancelDuring w (requests st))"
  "lastRequestTime (snd (axios_get w rq st)) = lastRequestTime st"
  "requests (snd (axios_get w rq st)) = Suc (requests st)"
  "clockReads (snd (axios_get w rq st)) = clockReads st"
  "dispatchTimes (snd (axios_get w rq st)) = dispatchTimes st @ [lastRequestTime st]"
  by (simp_all add: axios_get_def Let_def)

lemma retry_view_axios_get [simp]:
  "retry_view (trace (snd (axios_get w rq st))) = retry_view (trace st) @ [Request rq]"
  by (simp add: retry_view_def)

section \<open>One attempt of the executor, by the way it settles\<close>

lemma retry_from_success:
  "respond w (requests st) rq = Inr v \<Longrightarrow>
   retry_from cfg w (axios_get w rq) attempt st = (Inr v, snd (axios_get w rq st))"
  by (subst retry_from.simps) (simp add: split_def prod_eq_iff split: prod.splits sum.splits)

lemma retryable_failureE:
  assumes "retryable_failure x"
  obtains msg r where "x = Inl (AxiosError msg (Some r))" "status_code r = 429 \<or> 500 \<le> status_code r"
  using assms by (auto simp: retryable_failure_def split: sum.splits js_error.splits option.splits)

lemma case_prod_pair: "(case p of (a, b) \<Rightarrow> f a b) = f (fst p) (snd p)"
  by (simp add: split_def)

lemma retry_from_retry:
  assumes "retryable_failure (respond w (requests st) rq)" and "int attempt \<le> retryAttempts cfg"
  shows "retry_from cfg w (axios_get w rq) attempt st
       = retry_from cfg w (axios_get w rq) (Suc attempt)
           (do_rateLimit cfg w
              (setTimeout Backoff (real_of_int (retryDelay cfg * 2 ^ (attempt - 1)))
                 (emit (Retrying attempt (retryDelay cfg * 2 ^ (attempt - 1))
                          (failure_message (respond w (requests st) rq)))
                    (snd (axios_get w rq st)))))"
proof -
  from assms(1) obtain msg r where x: "respond w (requests st) rq = Inl (AxiosError msg (Some r))"
    and s: "status_code r = 429 \<or> 500 \<le> status_code r" by (rule retryable_failureE)
  have fx: "fst (axios_get w rq st) = Inl (AxiosError msg (Some r))" using x by simp
  show ?thesis
    apply (subst retry_from.simps)
    apply (simp only: case_prod_pair fx)
    using s assms(2) by (auto simp: failure_message_def x Let_def)
qed


lemma retry_from_unauthorized:
  assumes "respond w (requests st) rq = Inl (AxiosError msg (Some r))" and "status_code r = 401"
  shows "retry_from cfg w (axios_get w rq) attempt st
       = (Inl (Error token_expired_message), emit TokenExpired (snd (axios_get w rq st)))"
proof -
  have fx: "fst (axios_get w rq st) = Inl (AxiosError msg (Some r))" using assms(1) by simp
  show ?thesis
    apply (subst retry_from.simps)
    apply (simp only: case_prod_pair fx)
    using assms(2) by simp
qed




lemma retry_prefix:
  assumes "\<forall>i<j. retryable_failure (respond w (requests st + i) rq)"
    and "int j \<le> retryAttempts cfg"
  shows "\<exists>st'. retry_from cfg w (axios_get w rq) (Suc 0) st
                 = retry_from cfg w (axios_get w rq) (Suc j) st'
           \<and> retry_view (trace st')
               = retry_view (trace st)
                 @ concat (map (\<lambda>n. retry_steps cfg w rq (requests st) n) [Suc 0..<Suc j])
           \<and> requests st' = requests st + j"
  using assms
proof (induction j)
  case 0
  show ?case by (rule exI[of _ st]) simp
next
  case (Suc j)
  then obtain s where s: "retry_from cfg w (axios_get w rq) (Suc 0) st = retry_from cfg w (axios_get w rq) (Suc j) s"
    "retry_view (trace s) = retry_view (trace st) @ concat (map (\<lambda>n. retry_steps cfg w rq (requests st) n) [Suc 0..<Suc j])"
    "requests s = requests st + j" by auto
  have f: "retryable_failure (respond w (requests s) rq)" using Suc.prems(1) s(3) by simp
  have le: "int (Suc j) \<le> retryAttempts cfg" using Suc.prems(2) by simp
  note step = retry_from_retry[OF f le]
  show ?case
    apply (rule exI)
    apply (intro conjI)
      apply (simp only: s(1) step)
     apply (simp add: s(2) retry_steps_def s(3))
    apply (simp add: s(3))
    done
qed

lemma retry_then_success:
  assumes "\<forall>i<k. retryable_failure (respond w (requests st + i) rq)"
    and "int k \<le> retryAttempts cfg"
    and "respond w (requests st + k) rq = Inr v"
  shows "\<exists>st'. retryableRequest cfg w (axios_get w rq) 1 st = (Inr v, st')
           \<and> retry_view (trace st')
               = retry_view (trace st)
                 @ concat (map (\<lambda>n. retry_steps cfg w rq (requests st) n) [1..<Suc k])
                 @ [Request rq]
           \<and> requests st' = requests st + k + 1"
proof -
  let ?s0 = "do_rateLimit cfg w st"
  have p1: "\<forall>i<k. retryable_failure (respond w (requests ?s0 + i) rq)" using assms(1) by simp
  from retry_prefix[OF p1 assms(2)] obtain s where
      s: "retry_from cfg w (axios_get w rq) (Suc 0) ?s0 = retry_from cfg w (axios_get w rq) (Suc k) s"
         "retry_view (trace s) = retry_view (trace ?s0)
            @ concat (map (\<lambda>n. retry_steps cfg w rq (requests ?s0) n) [Suc 0..<Suc k])"
         "requests s = requests ?s0 + k" by blast
  have fin: "respond w (requests s) rq = Inr v" using assms(3) s(3) by simp
  show ?thesis
    apply (rule exI[of _ "snd (axios_get w rq s)"])
    apply (simp add: retryableRequest_def s(1) retry_from_success[OF fin] s(2) s(3))
    done
qed


section \<open>The executor only adds effects\<close>













section \<open>The page loop\<close>

lemma sent_simps [simp]:
  "sent [] = []"
  "sent (e # es) = (case sent_request e of None \<Rightarrow> sent es | Some rq \<Rightarrow> rq # sent es)"
  "sent (xs @ ys) = sent xs @ sent ys"
  by (simp_all add: sent_def List.map_filter_def split: option.splits)

lemma sent_do_rateLimit [simp]: "sent (trace (do_rateLimit cfg w st)) = sent (trace st)"
  by (simp add: do_rateLimit_def split_def Let_def split: option.splits)

lemma retryableRequest_first_success:
  assumes "respond w (requests st) rq = Inr resp"
  shows "retryableRequest cfg w (axios_get w rq) attempt st
       = (Inr resp, snd (axios_get w rq (do_rateLimit cfg w st)))"
proof -
  have "respond w (requests (do_rateLimit cfg w st)) rq = Inr resp" using assms by simp
  then show ?thesis by (simp add: retryableRequest_def retry_from_success)
qed

lemma page_loop_stop:
  assumes "\<not> (hasMore \<and> \<not> isCancelled st)"
  shows "page_loop fuel cfg w f t start hasMore st = Some (Inr (), st)"
  by (subst page_loop.simps) (simp only: assms if_False)

lemma page_loop_step:
  assumes "\<not> isCancelled st" and "page_served w (requests st) (ListEnvelopes f t start) page"
  shows "page_loop (Suc fuel) cfg w f t start True st
       = page_loop fuel cfg w f t (length (envelopes st) + length page) (length page = page_count)
           (emit (EnvelopesFound (length page) (length (envelopes st) + length page))
              ((snd (axios_get w (ListEnvelopes f t start) (do_rateLimit cfg w st)))
                 \<lparr>envelopes := envelopes st @ page\<rparr>))"
proof -
  from assms(2) obtain resp where r: "respond w (requests st) (ListEnvelopes f t start) = Inr resp"
    and p: "data_envelopes resp = Some page"
    by (auto simp: page_served_def split: sum.splits)
  show ?thesis
    apply (subst page_loop.simps)
    using assms(1) p by (simp add: retryableRequest_first_success[OF r] Let_def)
qed

lemma page_loop_pages:
  assumes "pages \<noteq> []" and "length pages \<le> fuel" and "\<not> isCancelled st"
    and "\<forall>i<length pages. page_served w (requests st + i)
            (ListEnvelopes f t (page_offset start (length (envelopes st)) pages i)) (pages ! i)"
    and "\<forall>i<length pages - 1. length (pages ! i) = page_count \<and> \<not> cancelDuring w (requests st + i)"
    and "length (last pages) \<noteq> page_count \<or> cancelDuring w (requests st + (length pages - 1))"
  shows "\<exists>st'. page_loop fuel cfg w f t start True st = Some (Inr (), st')
           \<and> envelopes st' = envelopes st @ concat pages
           \<and> requests st' = requests st + length pages
           \<and> sent (trace st')
               = sent (trace st)
                 @ map (\<lambda>i. ListEnvelopes f t (page_offset start (length (envelopes st)) pages i))
                     [0..<length pages]
           \<and> isCancelled st' = cancelDuring w (requests st + (length pages - 1))"
  using assms
proof (induction pages arbitrary: fuel st start)
  case Nil
  then show ?case by simp
next
  case (Cons p ps)
  from Cons.prems(2) obtain fuel' where fuel: "fuel = Suc fuel'" "length ps \<le> fuel'"
    by (cases fuel) auto
  have served0: "page_served w (requests st) (ListEnvelopes f t start) p"
    using Cons.prems(4)[rule_format, of 0] by (simp add: page_offset_def)
  let ?st1 = "emit (EnvelopesFound (length p) (length (envelopes st) + length p))
              ((snd (axios_get w (ListEnvelopes f t start) (do_rateLimit cfg w st)))
                 \<lparr>envelopes := envelopes st @ p\<rparr>)"
  note step = page_loop_step[OF Cons.prems(3) served0, of fuel' cfg]
  show ?case
  proof (cases ps)
    case Nil
    have stop: "\<not> (length p = page_count \<and> \<not> isCancelled ?st1)"
      using Cons.prems(6) Nil by auto
    show ?thesis
      apply (rule exI[of _ ?st1])
      using Nil fuel by (simp add: step page_loop_stop[OF stop] page_offset_def Cons.prems(3))
  next
    case (Cons q qs)
    have full: "length p = page_count" and nc: "\<not> cancelDuring w (requests st)"
      using Cons.prems(5)[rule_format, of 0] Cons by auto
    have c1: "ps \<noteq> []" using Cons by simp
    have c3: "\<not> isCancelled ?st1" using Cons.prems(3) nc by simp
    have c4: "\<forall>i<length ps. page_served w (requests ?st1 + i)
            (ListEnvelopes f t (page_offset (length (envelopes st) + length p) (length (envelopes ?st1)) ps i)) (ps ! i)"
    proof (intro allI impI)
      fix i assume "i < length ps"
      then have "page_served w (requests st + Suc i)
            (ListEnvelopes f t (page_offset start (length (envelopes st)) (p # ps) (Suc i))) ((p # ps) ! Suc i)"
        using Cons.prems(4)[rule_format, of "Suc i"] by simp
      then show "page_served w (requests ?st1 + i)
            (ListEnvelopes f t (page_offset (length (envelopes st) + length p) (length (envelopes ?st1)) ps i)) (ps ! i)"
        by (auto simp: page_offset_def add.assoc)
    qed
    have c5: "\<forall>i<length ps - 1. length (ps ! i) = page_count \<and> \<not> cancelDuring w (requests ?st1 + i)"
    proof (intro allI impI)
      fix i assume "i < length ps - 1"
      then show "length (ps ! i) = page_count \<and> \<not> cancelDuring w (requests ?st1 + i)"
        using Cons.prems(5)[rule_format, of "Suc i"] by simp
    qed
    have c6: "length (last ps) \<noteq> page_count \<or> cancelDuring w (requests ?st1 + (length ps - 1))"
      using Cons.prems(6) c1 by (cases ps) auto
    from Cons.IH[OF c1 fuel(2) c3 c4 c5 c6] obtain st' where
      r: "page_loop fuel' cfg w f t (length (envelopes st) + length p) True ?st1 = Some (Inr (), st')"
         "envelopes st' = envelopes ?st1 @ concat ps"
         "requests st' = requests ?st1 + length ps"
         "sent (trace st') = sent (trace ?st1)
            @ map (\<lambda>i. ListEnvelopes f t (page_offset (length (envelopes st) + length p) (length (envelopes ?st1)) ps i)) [0..<length ps]"
         "isCancelled st' = cancelDuring w (requests ?st1 + (length ps - 1))"
      by blast
    have step': "page_loop (Suc fuel') cfg w f t start True st
        = page_loop fuel' cfg w f t (length (envelopes st) + length p) True ?st1"
      using step full by simp
    have shift: "map (\<lambda>i. ListEnvelopes f t (page_offset start (length (envelopes st)) (p # ps) i)) [0..<length (p # ps)]
        = ListEnvelopes f t start
          # map (\<lambda>i. ListEnvelopes f t (page_offset (length (envelopes st) + length p) (length (envelopes ?st1)) ps i)) [0..<length ps]"
      by (simp add: map_upt_Suc page_offset_def del: upt_Suc)
    show ?thesis
      apply (rule exI[of _ st'])
      apply (intro conjI)
          apply (simp only: fuel(1) step' r(1))
         apply (simp add: r(2))
        apply (simp add: r(3))
       apply (simp only: r(4) shift)
       apply (simp add: nc)
      using c1 apply (cases ps; simp add: r(5))
      done
  qed
qed


section \<open>Configuration\<close>

lemma replace_first_prefix: "pat \<noteq> [] \<Longrightarrow> replace_first pat rep (pat @ s) = rep @ s"
  by (cases pat) auto

lemma replace_first_absent: "\<not> contains pat s \<Longrightarrow> replace_first pat rep s = s"
  by (induction s) auto

lemmas config_defs = new_DocusignConfig_def assign_fields_def validate_def
  str_or_def str_or_default_def num_or_default_def


section \<open>Downloads: one download, one chunk, all chunks\<close>

lemma download_view_simps [simp]:
  "download_view [] = []"
  "download_view (e # es) = (case download_mark_of e of None \<Rightarrow> download_view es | Some m \<Rightarrow> m # download_view es)"
  "download_view (xs @ ys) = download_view xs @ download_view ys"
  by (simp_all add: download_view_def List.map_filter_def split: option.splits)

lemma outcomes_simps [simp]:
  "outcomes [] = []"
  "outcomes (e # es) = (case outcome_of e of None \<Rightarrow> outcomes es | Some m \<Rightarrow> m # outcomes es)"
  "outcomes (xs @ ys) = outcomes xs @ outcomes ys"
  by (simp_all add: outcomes_def List.map_filter_def split: option.splits)






lemma start_download_simps [simp]:
  "trace (snd (start_download cfg w e st)) = trace st @ [Emit (DownloadStarted (envelopeId e))]"
  "envelopes (snd (start_download cfg w e st)) = envelopes st"
  "isCancelled (snd (start_download cfg w e st)) = isCancelled st"
  "requests (snd (start_download cfg w e st)) = requests st"
  by (simp_all add: start_download_def Let_def split_def split: option.splits)





lemma finish_download_cases:
  fixes cfg w e wait n st
  defines "st1 \<equiv> (case wait of None \<Rightarrow> st | Some d \<Rightarrow> rateLimit_end w (Some d) st)"
  defines "R \<equiv> retry_from cfg w (axios_get w (CombinedDocument (envelopeId e))) (Suc 0) st1"
  shows "(\<exists>msg. finish_download cfg w e wait (n, st)
                  = (n, emit (DownloadError (envelopeId e) msg) (snd R)))
       \<or> (\<exists>p. finish_download cfg w e wait (n, st)
                  = (Suc n, emit (DownloadComplete (envelopeId e) p) (snd R)))"
proof (cases wait)
  case None
  then have st1: "st1 = st" by (simp add: st1_def)
  show ?thesis
  proof (cases "fst R")
    case (Inl err)
    then show ?thesis
      unfolding R_def st1 by (auto simp add: finish_download_def None split_def Let_def)
  next
    case (Inr resp)
    then show ?thesis
      unfolding R_def st1 by (cases "data_pipe resp") (auto simp add: finish_download_def None split_def Let_def)
  qed
next
  case (Some d)
  then have st1: "st1 = rateLimit_end w (Some d) st" by (simp add: st1_def)
  show ?thesis
  proof (cases "fst R")
    case (Inl err)
    then show ?thesis
      unfolding R_def st1 by (auto simp add: finish_download_def Some split_def Let_def)
  next
    case (Inr resp)
    then show ?thesis
      unfolding R_def st1 by (cases "data_pipe resp") (auto simp add: finish_download_def Some split_def Let_def)
  qed
qed








section \<open>The chunks\<close>




lemma downloadDocuments_run:
  assumes "envelopes st \<noteq> []" and "\<not> isCancelled st"
    and "ensureDir w (outputPath cfg) = None" and "1 \<le> maxConcurrent cfg"
  shows "downloadDocuments cfg w st
       = Some (Inr (),
           emit (AllDownloadsComplete
                   (fst (run_chunks cfg w (chunk_loop (nat (maxConcurrent cfg)) (envelopes st) 0)
                           (0, if cancelDuringEnsureDir w then cancel st else st))))
             (snd (run_chunks cfg w (chunk_loop (nat (maxConcurrent cfg)) (envelopes st) 0)
                           (0, if cancelDuringEnsureDir w then cancel st else st))))"
  using assms by (simp add: downloadDocuments_def Let_def split_def)


section \<open>Pacing\<close>

lemma Date_now_simps [simp]:
  "fst (Date_now w st) = clock w (clockReads st)"
  "snd (Date_now w st) = st\<lparr>clockReads := Suc (clockReads st)\<rparr>"
  by (simp_all add: Date_now_def)

lemma start_download_no_wait:
  assumes "\<not> real_of_int (clock w (clockReads st) - lastRequestTime st)
               < 1000 / real_of_int (rateLimit cfg)"
  shows "fst (start_download cfg w e st) = None"
    and "lastRequestTime (snd (start_download cfg w e st)) = clock w (Suc (clockReads st))"
    and "clockReads (snd (start_download cfg w e st)) = Suc (Suc (clockReads st))"
    and "dispatchTimes (snd (start_download cfg w e st)) = dispatchTimes st"
  using assms
  by (simp_all add: start_download_def rateLimit_begin_def rateLimit_end_def emit_def
        split_def Let_def)

lemma start_download_wait:
  assumes "real_of_int (clock w (clockReads st) - lastRequestTime st)
             < 1000 / real_of_int (rateLimit cfg)"
  shows "fst (start_download cfg w e st)
           = Some (1000 / real_of_int (rateLimit cfg)
                    - real_of_int (clock w (clockReads st) - lastRequestTime st))"
    and "lastRequestTime (snd (start_download cfg w e st)) = lastRequestTime st"
    and "clockReads (snd (start_download cfg w e st)) = Suc (clockReads st)"
    and "dispatchTimes (snd (start_download cfg w e st)) = dispatchTimes st"
  using assms
  by (simp_all add: start_download_def rateLimit_begin_def emit_def split_def Let_def)


lemma rateLimit_end_lastRequestTime [simp]:
  "lastRequestTime (rateLimit_end w wait st) = clock w (clockReads st)"
  by (cases wait) (simp_all add: rateLimit_end_def setTimeout_def Let_def split_def)

lemma finish_download_served:
  assumes "respond w (requests st) (CombinedDocument (envelopeId e)) = Inr resp"
  shows "dispatchTimes (snd (finish_download cfg w e wait (n, st)))
           = dispatchTimes st
             @ [case wait of None \<Rightarrow> lastRequestTime st | Some d \<Rightarrow> clock w (clockReads st)]"
    and "lastRequestTime (snd (finish_download cfg w e wait (n, st)))
           = (case wait of None \<Rightarrow> lastRequestTime st | Some d \<Rightarrow> clock w (clockReads st))"
    and "clockReads (snd (finish_download cfg w e wait (n, st)))
           = (case wait of None \<Rightarrow> clockReads st | Some d \<Rightarrow> Suc (clockReads st))"
    and "requests (snd (finish_download cfg w e wait (n, st))) = Suc (requests st)"
proof -
  let ?rq = "CombinedDocument (envelopeId e)"
  let ?st1 = "case wait of None \<Rightarrow> st | Some d \<Rightarrow> rateLimit_end w (Some d) st"
  have rq: "requests ?st1 = requests st" by (cases wait) simp_all
  have R: "retry_from cfg w (axios_get w ?rq) (Suc 0) ?st1 = (Inr resp, snd (axios_get w ?rq ?st1))"
    by (rule retry_from_success) (simp add: rq assms)
  from finish_download_cases[of cfg w e wait n st]
  obtain ev where fd: "snd (finish_download cfg w e wait (n, st)) = emit ev (snd (axios_get w ?rq ?st1))"
    unfolding R by auto
  show "dispatchTimes (snd (finish_download cfg w e wait (n, st)))
           = dispatchTimes st
             @ [case wait of None \<Rightarrow> lastRequestTime st | Some d \<Rightarrow> clock w (clockReads st)]"
    unfolding fd by (cases wait) simp_all
  show "lastRequestTime (snd (finish_download cfg w e wait (n, st)))
           = (case wait of None \<Rightarrow> lastRequestTime st | Some d \<Rightarrow> clock w (clockReads st))"
    unfolding fd by (cases wait) simp_all
  show "clockReads (snd (finish_download cfg w e wait (n, st)))
           = (case wait of None \<Rightarrow> clockReads st | Some d \<Rightarrow> Suc (clockReads st))"
    unfolding fd by (cases wait) simp_all
  show "requests (snd (finish_download cfg w e wait (n, st))) = Suc (requests st)"
    unfolding fd by (simp add: rq)
qed

lemma chunks3: "chunk_loop 3 [a, b, c] 0 = [[a, b, c]]"
  by (simp add: chunk_loop.simps slice_def)

lemma sequential_pacing:
  assumes timer: "\<And>d. fst (rateLimit_begin cfg w st) = Some d \<Longrightarrow>
             real_of_int (clock w (clockReads st)) + d \<le> real_of_int (clock w (Suc (clockReads st)))"
    and mono: "clock w (clockReads st) \<le> clock w (Suc (clockReads st))"
  shows "1000 / real_of_int (rateLimit cfg)
           \<le> real_of_int (lastRequestTime (do_rateLimit cfg w st) - lastRequestTime st)"
proof -
  have l: "lastRequestTime (do_rateLimit cfg w st) = clock w (Suc (clockReads st))"
    by (simp add: do_rateLimit_def split_def Let_def)
  show ?thesis
  proof (cases "real_of_int (clock w (clockReads st) - lastRequestTime st)
                  < 1000 / real_of_int (rateLimit cfg)")
    case True
    then have "fst (rateLimit_begin cfg w st)
        = Some (1000 / real_of_int (rateLimit cfg)
                 - real_of_int (clock w (clockReads st) - lastRequestTime st))"
      by (simp add: rateLimit_begin_def Let_def split_def)
    from timer[OF this] show ?thesis unfolding l by simp
  next
    case False
    then show ?thesis unfolding l using mono by simp
  qed
qed


section \<open>Cancellation during the downloads\<close>








section \<open>The outcome of one download\<close>









section \<open>Small evaluations\<close>


lemma show500: "show_nat 500 = ''500''"
  by simp

section \<open>The claims\<close>



text \<open>
  C2. A request that fails with status 401 is never retried, whatever the attempt number
  and the retry ceiling are: the call makes that one request, emits \<open>tokenExpired\<close>
  once and throws the token-expired error.
\<close>

theorem unauthorized_never_retried:
  assumes "respond w (requests st) rq = Inl (AxiosError msg (Some r))" and "status_code r = 401"
  shows "\<exists>st'. retryableRequest cfg w (axios_get w rq) attempt st
                 = (Inl (Error token_expired_message), st')
           \<and> retry_view (trace st') = retry_view (trace st) @ [Request rq, Emit TokenExpired]
           \<and> requests st' = Suc (requests st)"
proof -
  have x: "respond w (requests (do_rateLimit cfg w st)) rq = Inl (AxiosError msg (Some r))"
    using assms(1) by simp
  show ?thesis
    by (simp add: retryableRequest_def retry_from_unauthorized[OF x assms(2)])
qed

theorem unauthorized_never_retried_witness:
  "\<exists>st'. retryableRequest example_config (failing_world 401)
            (axios_get (failing_world 401) (CombinedDocument ''env1'')) 1 fresh_service
          = (Inl (Error ''Token expired. Please refresh your authentication token.''), st')
        \<and> retry_view (trace st') = [Request (CombinedDocument ''env1''), Emit TokenExpired]
        \<and> requests st' = 1"
  using unauthorized_never_retried[of "failing_world 401" fresh_service "CombinedDocument ''env1''"
             "''Request failed''" "\<lparr> status_code = 401, data_message = None \<rparr>" example_config 1]
  by (simp add: failing_world_def fresh_service_def token_expired_message_def)


text \<open>
  C3 fails for the downloads of one chunk. Three downloads with \<open>rateLimit = 2\<close>, so
  with a minimum interval of 500 ms: the first is dispatched at 10000. The second and the third
  read the clock in the same turn, both find that 0 ms have passed since 10000 and both
  wait 500 ms; their timers end together at 10500, and both are dispatched at 10500, 0 ms
  apart.
\<close>

theorem concurrent_downloads_dispatch_together:
  "1000 / real_of_int (rateLimit pacing_config) = 500
   \<and> (\<exists>st'. downloadDocuments pacing_config racing_world
              (loaded_service [example_envelope ''a'', example_envelope ''b'', example_envelope ''c''])
            = Some (Inr (), st')
          \<and> dispatchTimes st' = [10000, 10500, 10500])"
proof -
  let ?cfg = pacing_config and ?w = racing_world
  let ?a = "example_envelope ''a''" and ?b = "example_envelope ''b''" and ?c = "example_envelope ''c''"
  let ?s0 = "loaded_service [?a, ?b, ?c]"
  have rl: "1000 / real_of_int (rateLimit ?cfg) = 500"
    by (simp add: pacing_config_def example_config_def)
  have ck: "clock ?w k = (if k < 4 then 10000 else 10500)" for k
    by (simp add: racing_world_def)
  have served: "respond ?w k rq = Inr \<lparr> data_envelopes = None, data_pipe = None \<rparr>" for k rq
    by (simp add: racing_world_def)
  have s0: "lastRequestTime ?s0 = 0" "clockReads ?s0 = 0" "dispatchTimes ?s0 = []"
    "envelopes ?s0 = [?a, ?b, ?c]" "\<not> isCancelled ?s0"
    by (simp_all add: loaded_service_def fresh_service_def)
  \<comment> \<open>the three downloads start one after the other\<close>
  let ?s1 = "snd (start_download ?cfg ?w ?a ?s0)"
  have c1: "\<not> real_of_int (clock ?w (clockReads ?s0) - lastRequestTime ?s0)
               < 1000 / real_of_int (rateLimit ?cfg)"
    by (simp add: rl s0 ck)
  note a1 = start_download_no_wait[OF c1, where e="?a"]
  have s1: "lastRequestTime ?s1 = 10000" "clockReads ?s1 = 2" "dispatchTimes ?s1 = []"
    by (simp_all add: a1 s0 ck)
  let ?s2 = "snd (start_download ?cfg ?w ?b ?s1)"
  have c2: "real_of_int (clock ?w (clockReads ?s1) - lastRequestTime ?s1)
               < 1000 / real_of_int (rateLimit ?cfg)"
    by (simp add: rl s1 ck)
  note a2 = start_download_wait[OF c2, where e="?b"]
  have w2: "fst (start_download ?cfg ?w ?b ?s1) = Some 500"
    by (simp add: a2(1) rl s1 ck)
  have s2: "lastRequestTime ?s2 = 10000" "clockReads ?s2 = 3" "dispatchTimes ?s2 = []"
    by (simp_all add: a2 s1)
  let ?s3 = "snd (start_download ?cfg ?w ?c ?s2)"
  have c3: "real_of_int (clock ?w (clockReads ?s2) - lastRequestTime ?s2)
               < 1000 / real_of_int (rateLimit ?cfg)"
    by (simp add: rl s2 ck)
  note a3 = start_download_wait[OF c3, where e="?c"]
  have w3: "fst (start_download ?cfg ?w ?c ?s2) = Some 500"
    by (simp add: a3(1) rl s2 ck)
  have s3: "lastRequestTime ?s3 = 10000" "clockReads ?s3 = 4" "dispatchTimes ?s3 = []"
    by (simp_all add: a3 s2)
  have started: "start_chunk ?cfg ?w [?a, ?b, ?c] ?s0 = ([None, Some 500, Some 500], ?s3)"
    by (simp add: split_def Let_def a1(1) w2 w3)
  \<comment> \<open>and resume one after the other\<close>
  let ?f1 = "finish_download ?cfg ?w ?a None (0, ?s3)"
  let ?f2 = "finish_download ?cfg ?w ?b (Some 500) ?f1"
  let ?f3 = "finish_download ?cfg ?w ?c (Some 500) ?f2"
  note d1 = finish_download_served[where w="?w" and st="?s3" and e="?a" and cfg="?cfg" and wait=None and n=0, OF served]
  have f1: "lastRequestTime (snd ?f1) = 10000" "clockReads (snd ?f1) = 4"
    "dispatchTimes (snd ?f1) = [10000]"
    by (simp_all add: d1 s3)
  have p1: "?f1 = (fst ?f1, snd ?f1)" by simp
  note d2 = finish_download_served[where w="?w" and st="snd ?f1" and e="?b" and cfg="?cfg" and wait="Some 500" and n="fst ?f1", OF served]
  have f2: "lastRequestTime (snd ?f2) = 10500" "clockReads (snd ?f2) = 5"
    "dispatchTimes (snd ?f2) = [10000, 10500]"
    using d2 by (simp_all add: f1 ck)
  note d3 = finish_download_served[where w="?w" and st="snd ?f2" and e="?c" and cfg="?cfg" and wait="Some 500" and n="fst ?f2", OF served]
  have f3: "dispatchTimes (snd ?f3) = [10000, 10500, 10500]"
    using d3 by (simp add: f2 ck)
  have chunk: "run_chunk ?cfg ?w [?a, ?b, ?c] (0, ?s0) = ?f3"
    by (simp add: run_chunk_def started del: start_chunk.simps)
  have mc: "nat (maxConcurrent ?cfg) = 3" "1 \<le> maxConcurrent ?cfg"
    by (simp_all add: pacing_config_def example_config_def)
  have ed: "ensureDir ?w (outputPath ?cfg) = None" "\<not> cancelDuringEnsureDir ?w"
    by (simp_all add: racing_world_def)
  have ne: "envelopes ?s0 \<noteq> []" by (simp add: s0)
  have run: "run_chunks ?cfg ?w (chunk_loop 3 [?a, ?b, ?c] 0) (0, ?s0) = ?f3"
    by (simp add: chunks3 s0 chunk)
  show ?thesis
    apply (rule conjI[OF rl])
    apply (rule exI[of _ "emit (AllDownloadsComplete (fst ?f3)) (snd ?f3)"])
    apply (simp only: downloadDocuments_run[OF ne s0(5) ed(1) mc(2)] mc(1) s0(4) ed(2) if_False run)
    apply (simp add: f3)
    done
qed

text \<open>
  C4. Discovery on a session that is not cancelled, with a server that answers each
  listing request at once: when all pages but the last hold exactly 100 envelopes and
  the last holds another number, discovery returns the envelopes accumulated before
  followed by the pages in request order, it sends one request per page and none after
  the short page, and each request after the first carries as offset the number of
  envelopes accumulated so far.
\<close>

theorem discovery_pages_until_short_page:
  assumes "\<not> isCancelled st"
    and "toISOString w fromDate = Some f" and "toISOString w toDate = Some t"
    and "pages \<noteq> []" and "length pages \<le> fuel"
    and "\<forall>i<length pages.
           page_served w (requests st + i)
             (ListEnvelopes f t (page_offset 0 (length (envelopes st)) pages i)) (pages ! i)
           \<and> \<not> cancelDuring w (requests st + i)"
    and "\<forall>i<length pages - 1. length (pages ! i) = 100"
    and "length (last pages) \<noteq> 100"
  shows "\<exists>st'. getEnvelopesWebApi fuel cfg w fromDate toDate st
                 = Some (Inr (envelopes st @ concat pages), st')
           \<and> envelopes st' = envelopes st @ concat pages
           \<and> requests st' = requests st + length pages
           \<and> sent (trace st')
               = sent (trace st)
                 @ map (\<lambda>i. ListEnvelopes f t (page_offset 0 (length (envelopes st)) pages i))
                     [0..<length pages]"
proof -
  let ?s = "emit (SearchStarted fromDate toDate) st"
  have a3: "\<not> isCancelled ?s" using assms(1) by simp
  have a4: "\<forall>i<length pages. page_served w (requests ?s + i)
            (ListEnvelopes f t (page_offset 0 (length (envelopes ?s)) pages i)) (pages ! i)"
    using assms(6) by simp
  have a5: "\<forall>i<length pages - 1. length (pages ! i) = page_count \<and> \<not> cancelDuring w (requests ?s + i)"
    using assms(6,7) by (simp add: page_count_def)
  have a6: "length (last pages) \<noteq> page_count \<or> cancelDuring w (requests ?s + (length pages - 1))"
    using assms(8) by (simp add: page_count_def)
  from page_loop_pages[OF assms(4,5) a3 a4 a5 a6, of cfg] obtain st' where
    r: "page_loop fuel cfg w f t 0 True ?s = Some (Inr (), st')"
       "envelopes st' = envelopes ?s @ concat pages"
       "requests st' = requests ?s + length pages"
       "sent (trace st') = sent (trace ?s)
          @ map (\<lambda>i. ListEnvelopes f t (page_offset 0 (length (envelopes ?s)) pages i)) [0..<length pages]"
    by blast
  show ?thesis
    apply (rule exI[of _ st'])
    using assms(1,2,3) r by (simp add: getEnvelopesWebApi_def)
qed

theorem discovery_pages_until_short_page_witness:
  "\<exists>st'. getEnvelopesWebApi 2 example_config two_page_world ''2024-01-01'' ''2024-12-31'' fresh_service
            = Some (Inr (replicate 100 (example_envelope ''a'') @ [example_envelope ''b'']), st')
        \<and> requests st' = 2
        \<and> sent (trace st') = [ListEnvelopes ''2024-01-01'' ''2024-12-31'' 0,
                               ListEnvelopes ''2024-01-01'' ''2024-12-31'' 100]"
  using discovery_pages_until_short_page[of fresh_service two_page_world "''2024-01-01''" "''2024-01-01''" "''2024-12-31''" "''2024-12-31''"
           "[replicate 100 (example_envelope ''a''), [example_envelope ''b'']]" 2 example_config]
  apply (simp add: fresh_service_def two_page_world_def page_served_def page_offset_def
        All_less_Suc numeral_2_eq_2 upt_rec)
  apply blast
  done






text \<open>
  C7, amended. Construction fails with a plain \<open>Error\<close> whose message names the first
  missing or invalid field, in the order token, account id, cookie, environment,
  \<open>maxConcurrent\<close>, \<open>retryAttempts\<close>, \<open>retryDelay\<close>, \<open>rateLimit\<close>: a negative
  number makes construction fail with the message of its own field whenever the fields
  checked before it are valid. A retry ceiling or a retry delay of zero does not make it
  fail: zero is replaced by the default, 3 or 1000, and when the strings are valid and
  each number is absent or within its bound, construction succeeds with the assigned
  fields.
\<close>

theorem config_first_failure_wins:
  \<open>(token (assign_fields env config) = []
      \<longrightarrow> new_DocusignConfig env config = Inl (Error ''DocuSign token is required''))
   \<and> (token (assign_fields env config) \<noteq> [] \<and> accountId (assign_fields env config) = []
      \<longrightarrow> new_DocusignConfig env config = Inl (Error ''DocuSign account ID is required''))
   \<and> (token (assign_fields env config) \<noteq> [] \<and> accountId (assign_fields env config) \<noteq> []
        \<and> cookie (assign_fields env config) = []
      \<longrightarrow> new_DocusignConfig env config = Inl (Error ''DocuSign cookie is required''))
   \<and> (token (assign_fields env config) \<noteq> [] \<and> accountId (assign_fields env config) \<noteq> []
        \<and> cookie (assign_fields env config) \<noteq> []
        \<and> environment (assign_fields env config) \<notin> {''production'', ''demo''}
      \<longrightarrow> new_DocusignConfig env config
            = Inl (Error ''Environment must be either "production" or "demo"''))
   \<and> (strings_valid (assign_fields env config)
        \<and> (\<exists>n<0. maxConcurrent_opt config = Some n)
      \<longrightarrow> new_DocusignConfig env config = Inl (Error ''maxConcurrent must be at least 1''))
   \<and> (strings_valid (assign_fields env config)
        \<and> absent_or (\<lambda>n. 1 \<le> n) (maxConcurrent_opt config)
        \<and> (\<exists>n<0. retryAttempts_opt config = Some n)
      \<longrightarrow> new_DocusignConfig env config = Inl (Error ''retryAttempts must be non-negative''))
   \<and> (strings_valid (assign_fields env config)
        \<and> absent_or (\<lambda>n. 1 \<le> n) (maxConcurrent_opt config)
        \<and> absent_or (\<lambda>n. 0 \<le> n) (retryAttempts_opt config)
        \<and> (\<exists>n<0. retryDelay_opt config = Some n)
      \<longrightarrow> new_DocusignConfig env config = Inl (Error ''retryDelay must be non-negative''))
   \<and> (strings_valid (assign_fields env config)
        \<and> absent_or (\<lambda>n. 1 \<le> n) (maxConcurrent_opt config)
        \<and> absent_or (\<lambda>n. 0 \<le> n) (retryAttempts_opt config)
        \<and> absent_or (\<lambda>n. 0 \<le> n) (retryDelay_opt config)
        \<and> (\<exists>n<0. rateLimit_opt config = Some n)
      \<longrightarrow> new_DocusignConfig env config = Inl (Error ''rateLimit must be at least 1''))
   \<and> (strings_valid (assign_fields env config)
        \<and> absent_or (\<lambda>n. 1 \<le> n) (maxConcurrent_opt config)
        \<and> absent_or (\<lambda>n. 0 \<le> n) (retryAttempts_opt config)
        \<and> absent_or (\<lambda>n. 0 \<le> n) (retryDelay_opt config)
        \<and> absent_or (\<lambda>n. 1 \<le> n) (rateLimit_opt config)
      \<longrightarrow> new_DocusignConfig env config = Inr (assign_fields env config))
   \<and> (retryAttempts_opt config = Some 0 \<longrightarrow> retryAttempts (assign_fields env config) = 3)
   \<and> (retryDelay_opt config = Some 0 \<longrightarrow> retryDelay (assign_fields env config) = 1000)\<close>
proof -
  let ?c = "assign_fields env config"
  have mc: "1 \<le> maxConcurrent ?c" if "absent_or (\<lambda>n. 1 \<le> n) (maxConcurrent_opt config)"
    using that by (auto simp: absent_or_def assign_fields_def num_or_default_def split: option.splits)
  have ra: "0 \<le> retryAttempts ?c" if "absent_or (\<lambda>n. 0 \<le> n) (retryAttempts_opt config)"
    using that by (auto simp: absent_or_def assign_fields_def num_or_default_def split: option.splits)
  have rd: "0 \<le> retryDelay ?c" if "absent_or (\<lambda>n. 0 \<le> n) (retryDelay_opt config)"
    using that by (auto simp: absent_or_def assign_fields_def num_or_default_def split: option.splits)
  have rl: "1 \<le> rateLimit ?c" if "absent_or (\<lambda>n. 1 \<le> n) (rateLimit_opt config)"
    using that by (auto simp: absent_or_def assign_fields_def num_or_default_def split: option.splits)
  have mcn: "maxConcurrent ?c < 1" if "\<exists>n<0. maxConcurrent_opt config = Some n"
    using that by (auto simp: assign_fields_def num_or_default_def)
  have ran: "retryAttempts ?c < 0" if "\<exists>n<0. retryAttempts_opt config = Some n"
    using that by (auto simp: assign_fields_def num_or_default_def)
  have rdn: "retryDelay ?c < 0" if "\<exists>n<0. retryDelay_opt config = Some n"
    using that by (auto simp: assign_fields_def num_or_default_def)
  have rln: "rateLimit ?c < 1" if "\<exists>n<0. rateLimit_opt config = Some n"
    using that by (auto simp: assign_fields_def num_or_default_def)
  have c1: "token ?c = [] \<longrightarrow> new_DocusignConfig env config = Inl (Error ''DocuSign token is required'')"
    by (simp add: new_DocusignConfig_def validate_def)
  have c2: "token ?c \<noteq> [] \<and> accountId ?c = []
      \<longrightarrow> new_DocusignConfig env config = Inl (Error ''DocuSign account ID is required'')"
    by (simp add: new_DocusignConfig_def validate_def)
  have c3: "token ?c \<noteq> [] \<and> accountId ?c \<noteq> [] \<and> cookie ?c = []
      \<longrightarrow> new_DocusignConfig env config = Inl (Error ''DocuSign cookie is required'')"
    by (simp add: new_DocusignConfig_def validate_def)
  have c4: \<open>token ?c \<noteq> [] \<and> accountId ?c \<noteq> [] \<and> cookie ?c \<noteq> []
        \<and> environment ?c \<notin> {''production'', ''demo''}
      \<longrightarrow> new_DocusignConfig env config
            = Inl (Error ''Environment must be either "production" or "demo"'')\<close>
    by (simp add: new_DocusignConfig_def validate_def)
  have c5: "strings_valid ?c \<and> (\<exists>n<0. maxConcurrent_opt config = Some n)
      \<longrightarrow> new_DocusignConfig env config = Inl (Error ''maxConcurrent must be at least 1'')"
    using mcn by (auto simp: new_DocusignConfig_def validate_def strings_valid_def)
  have c6: "strings_valid ?c \<and> absent_or (\<lambda>n. 1 \<le> n) (maxConcurrent_opt config)
        \<and> (\<exists>n<0. retryAttempts_opt config = Some n)
      \<longrightarrow> new_DocusignConfig env config = Inl (Error ''retryAttempts must be non-negative'')"
    using mc ran by (auto simp: new_DocusignConfig_def validate_def strings_valid_def)
  have c7: "strings_valid ?c \<and> absent_or (\<lambda>n. 1 \<le> n) (maxConcurrent_opt config)
        \<and> absent_or (\<lambda>n. 0 \<le> n) (retryAttempts_opt config)
        \<and> (\<exists>n<0. retryDelay_opt config = Some n)
      \<longrightarrow> new_DocusignConfig env config = Inl (Error ''retryDelay must be non-negative'')"
    using mc ra rdn by (auto simp: new_DocusignConfig_def validate_def strings_valid_def)
  have c8: "strings_valid ?c \<and> absent_or (\<lambda>n. 1 \<le> n) (maxConcurrent_opt config)
        \<and> absent_or (\<lambda>n. 0 \<le> n) (retryAttempts_opt config)
        \<and> absent_or (\<lambda>n. 0 \<le> n) (retryDelay_opt config)
        \<and> (\<exists>n<0. rateLimit_opt config = Some n)
      \<longrightarrow> new_DocusignConfig env config = Inl (Error ''rateLimit must be at least 1'')"
    using mc ra rd rln by (auto simp: new_DocusignConfig_def validate_def strings_valid_def)
  have c9: "strings_valid ?c \<and> absent_or (\<lambda>n. 1 \<le> n) (maxConcurrent_opt config)
        \<and> absent_or (\<lambda>n. 0 \<le> n) (retryAttempts_opt config)
        \<and> absent_or (\<lambda>n. 0 \<le> n) (retryDelay_opt config)
        \<and> absent_or (\<lambda>n. 1 \<le> n) (rateLimit_opt config)
      \<longrightarrow> new_DocusignConfig env config = Inr ?c"
    using mc ra rd rl by (auto simp: new_DocusignConfig_def validate_def strings_valid_def)
  have c10: "retryAttempts_opt config = Some 0 \<longrightarrow> retryAttempts ?c = 3"
    by (simp add: assign_fields_def num_or_default_def)
  have c11: "retryDelay_opt config = Some 0 \<longrightarrow> retryDelay ?c = 1000"
    by (simp add: assign_fields_def num_or_default_def)
  from c1 c2 c3 c4 c5 c6 c7 c8 c9 c10 c11 show ?thesis by blast
qed

theorem config_first_failure_wins_witness:
  "new_DocusignConfig example_env (example_options\<lparr>maxConcurrent_opt := Some (- 1)\<rparr>)
     = Inl (Error ''maxConcurrent must be at least 1'')
   \<and> new_DocusignConfig example_env
       (example_options\<lparr>retryAttempts_opt := Some (- 1), retryDelay_opt := Some (- 1)\<rparr>)
     = Inl (Error ''retryAttempts must be non-negative'')
   \<and> new_DocusignConfig example_env
       (example_options\<lparr>retryAttempts_opt := Some 0, retryDelay_opt := Some (- 1),
                         rateLimit_opt := Some (- 1)\<rparr>)
     = Inl (Error ''retryDelay must be non-negative'')
   \<and> new_DocusignConfig example_env
       (example_options\<lparr>retryDelay_opt := Some 0, rateLimit_opt := Some (- 1)\<rparr>)
     = Inl (Error ''rateLimit must be at least 1'')
   \<and> new_DocusignConfig example_env
       (example_options\<lparr>retryAttempts_opt := Some 0, retryDelay_opt := Some 0\<rparr>)
     = Inr example_config"
proof -
  let ?o1 = "example_options\<lparr>maxConcurrent_opt := Some (- 1)\<rparr>"
  let ?o2 = "example_options\<lparr>retryAttempts_opt := Some (- 1), retryDelay_opt := Some (- 1)\<rparr>"
  let ?o3 = "example_options\<lparr>retryAttempts_opt := Some 0, retryDelay_opt := Some (- 1),
                              rateLimit_opt := Some (- 1)\<rparr>"
  let ?o4 = "example_options\<lparr>retryDelay_opt := Some 0, rateLimit_opt := Some (- 1)\<rparr>"
  let ?o5 = "example_options\<lparr>retryAttempts_opt := Some 0, retryDelay_opt := Some 0\<rparr>"
  have s1: "strings_valid (assign_fields example_env ?o1)"
    and s2: "strings_valid (assign_fields example_env ?o2)"
    and s3: "strings_valid (assign_fields example_env ?o3)"
    and s4: "strings_valid (assign_fields example_env ?o4)"
    and s5: "strings_valid (assign_fields example_env ?o5)"
    by (simp_all add: strings_valid_def assign_fields_def example_env_def example_options_def
          str_or_def str_or_default_def)
  have f5: "assign_fields example_env ?o5 = example_config"
    by (simp add: assign_fields_def example_env_def example_options_def example_config_def
          str_or_def str_or_default_def num_or_default_def)
  show ?thesis
    using config_first_failure_wins[of example_env ?o1] config_first_failure_wins[of example_env ?o2]
      config_first_failure_wins[of example_env ?o3] config_first_failure_wins[of example_env ?o4]
      config_first_failure_wins[of example_env ?o5] s1 s2 s3 s4 s5 f5
    by (simp add: absent_or_def example_options_def)
qed

text \<open>
  C7 as stated fails. A retry ceiling of zero and a retry delay of zero are not rejected:
  zero is falsy, so the default replaces it, and the constructed configuration is the one
  of the defaults. And the error of a failed construction is a plain \<open>Error\<close>, not a
  \<open>ConfigurationError\<close>.
\<close>

theorem config_zero_accepted_plain_error:
  "new_DocusignConfig example_env (example_options\<lparr>retryAttempts_opt := Some 0\<rparr>)
     = Inr example_config
   \<and> new_DocusignConfig example_env (example_options\<lparr>retryDelay_opt := Some 0\<rparr>)
     = Inr example_config
   \<and> new_DocusignConfig example_env (example_options\<lparr>token_opt := None\<rparr>)
     = Inl (Error ''DocuSign token is required'')
   \<and> new_DocusignConfig example_env (example_options\<lparr>token_opt := None\<rparr>)
     \<noteq> Inl (ConfigurationError ''DocuSign token is required'')"
  by (simp add: example_env_def example_options_def example_config_def config_defs)



text \<open>
  C9, amended. \<open>cancel()\<close> sets the flag, and a second call leaves every field as the
  first call left it except that it emits \<open>cancelled\<close> once more; discovery and
  download return at once on a cancelled session and leave it as it is, so the flag
  stays set.
\<close>

theorem cancel_twice:
  "isCancelled (cancel st)
   \<and> cancel (cancel st) = (cancel st)\<lparr>trace := trace (cancel st) @ [Emit Cancelled]\<rparr>
   \<and> getEnvelopesWebApi fuel cfg w fromDate toDate (cancel st) = Some (Inr [], cancel st)
   \<and> downloadDocuments cfg w (cancel st) = Some (Inr (), cancel st)"
  by (simp add: cancel_def emit_def getEnvelopesWebApi_def downloadDocuments_def)

text \<open>
  C9 as stated fails: the second call of \<open>cancel()\<close> emits a second \<open>cancelled\<close>
  notification.
\<close>

theorem cancel_twice_emits_again:
  "trace (cancel fresh_service) = [Emit Cancelled]
   \<and> trace (cancel (cancel fresh_service)) = [Emit Cancelled, Emit Cancelled]"
  by (simp add: fresh_service_def)

text \<open>
  C10, amended. The constructor removes the first occurrence of \<open>Bearer \<close> from the
  token. When the bare token is not empty and does not itself contain \<open>Bearer \<close>,
  passing it with the prefix constructs the same configuration as passing it bare, the
  stored token is the bare token, and the authorization header is \<open>Bearer \<close> followed by
  it.
\<close>

theorem bearer_prefix_stripped:
  assumes "bare \<noteq> []" and "\<not> contains ''Bearer '' bare"
  shows "new_DocusignConfig env (config\<lparr>token_opt := Some (''Bearer '' @ bare)\<rparr>)
           = new_DocusignConfig env (config\<lparr>token_opt := Some bare\<rparr>)
       \<and> token (assign_fields env (config\<lparr>token_opt := Some (''Bearer '' @ bare)\<rparr>)) = bare
       \<and> token (assign_fields env (config\<lparr>token_opt := Some bare\<rparr>)) = bare
       \<and> authorization (buildHeaders (assign_fields env (config\<lparr>token_opt := Some (''Bearer '' @ bare)\<rparr>)))
           = ''Bearer '' @ bare"
proof -
  have a: "replace_first ''Bearer '' '''' (''Bearer '' @ bare) = bare"
    using replace_first_prefix[of "''Bearer ''" "''''" bare] by simp
  have b: "replace_first ''Bearer '' '''' bare = bare"
    using assms(2) by (rule replace_first_absent)
  have f: "assign_fields env (config\<lparr>token_opt := Some (''Bearer '' @ bare)\<rparr>)
         = assign_fields env (config\<lparr>token_opt := Some bare\<rparr>)"
    using assms(1) a b by (simp add: assign_fields_def str_or_def str_or_default_def del: replace_first.simps)
  have t: "token (assign_fields env (config\<lparr>token_opt := Some bare\<rparr>)) = bare"
    using assms(1) b by (simp add: assign_fields_def str_or_def str_or_default_def del: replace_first.simps)
  show ?thesis using f t by (simp add: new_DocusignConfig_def buildHeaders_def)
qed

theorem bearer_prefix_stripped_witness:
  "new_DocusignConfig example_env (example_options\<lparr>token_opt := Some ''Bearer test-token''\<rparr>)
     = new_DocusignConfig example_env (example_options\<lparr>token_opt := Some ''test-token''\<rparr>)
   \<and> authorization (buildHeaders (assign_fields example_env
         (example_options\<lparr>token_opt := Some ''Bearer test-token''\<rparr>))) = ''Bearer test-token''"
  using bearer_prefix_stripped[of "''test-token''" example_env example_options]
  by simp

text \<open>
  C10 as stated fails: a bare token that contains \<open>Bearer \<close> is not stored as it is,
  and differs from what is stored when it is passed with the prefix.
\<close>

theorem bearer_inside_token:
  "token (assign_fields example_env (example_options\<lparr>token_opt := Some ''Bearer a Bearer b''\<rparr>))
     = ''a Bearer b''
   \<and> token (assign_fields example_env (example_options\<lparr>token_opt := Some ''a Bearer b''\<rparr>))
     = ''a b''"
  by (simp add: example_env_def example_options_def assign_fields_def str_or_def str_or_default_def)


end
